theory Spec2Isabelle
  imports Complex_Main
begin

section \<open>Python values\<close>

text \<open>
  The values that \<open>json.loads\<close> can return. A Python \<open>float\<close> is a finite number, an
  infinity or a NaN; a \<open>dict\<close> is kept as an association list read with \<open>map_of\<close>.
  A \<open>string\<close> is a Python \<open>str\<close> whose characters have code points below 256.
\<close>

datatype pyfloat = Finite real | PosInf | NegInf | NaN

datatype json =
    JNull
  | JBool bool
  | JInt int
  | JFloat pyfloat
  | JStr string
  | JArr "json list"
  | JObj "(string \<times> json) list"

text \<open>
  Exceptions. \<open>KeyboardInterrupt\<close> and \<open>SystemExit\<close> derive from \<open>BaseException\<close> only;
  \<open>Error name\<close> is an instance of the class \<open>name\<close>, a subclass of \<open>Exception\<close>.
\<close>

datatype exn = KeyboardInterrupt | SystemExit int | Error string

fun is_Exception :: "exn \<Rightarrow> bool" where
  "is_Exception (Error _) = True"
| "is_Exception _ = False"

fun is_KeyboardInterrupt :: "exn \<Rightarrow> bool" where
  "is_KeyboardInterrupt KeyboardInterrupt = True"
| "is_KeyboardInterrupt _ = False"

text \<open>Truth value of a Python object in a condition (\<open>if response:\<close>, \<open>params or {}\<close>).\<close>

fun float_truthy :: "pyfloat \<Rightarrow> bool" where
  "float_truthy (Finite r) = (r \<noteq> 0)"
| "float_truthy _ = True"

fun truthy :: "json \<Rightarrow> bool" where
  "truthy JNull = False"
| "truthy (JBool b) = b"
| "truthy (JInt i) = (i \<noteq> 0)"
| "truthy (JFloat f) = float_truthy f"
| "truthy (JStr s) = (s \<noteq> [])"
| "truthy (JArr xs) = (xs \<noteq> [])"
| "truthy (JObj kvs) = (kvs \<noteq> [])"

definition py_or :: "json \<Rightarrow> json \<Rightarrow> json" where
  "py_or a b = (if truthy a then a else b)"

text \<open>Substring test, the meaning of \<open>in\<close> between two \<open>str\<close>.\<close>

fun starts_with :: "string \<Rightarrow> string \<Rightarrow> bool" where
  "starts_with [] ys = True"
| "starts_with (x # xs) [] = False"
| "starts_with (x # xs) (y # ys) = (x = y \<and> starts_with xs ys)"

fun contains :: "string \<Rightarrow> string \<Rightarrow> bool" where
  "contains xs [] = (xs = [])"
| "contains xs (y # ys) = (starts_with xs (y # ys) \<or> contains xs ys)"

text \<open>
  \<open>key in value\<close> and \<open>value[key]\<close> for a \<open>str\<close> key: membership among the keys of a
  dict, among the elements of a list, as a substring of a str, and a \<open>TypeError\<close> on
  anything else; subscripting by a str works on a dict only.
\<close>

fun py_in :: "string \<Rightarrow> json \<Rightarrow> exn + bool" where
  "py_in k (JObj kvs) = Inr (k \<in> set (map fst kvs))"
| "py_in k (JArr xs) = Inr (JStr k \<in> set xs)"
| "py_in k (JStr s) = Inr (contains k s)"
| "py_in k _ = Inl (Error ''TypeError'')"

fun py_getitem :: "json \<Rightarrow> string \<Rightarrow> exn + json" where
  "py_getitem (JObj kvs) k =
     (case map_of kvs k of None \<Rightarrow> Inl (Error ''KeyError'') | Some v \<Rightarrow> Inr v)"
| "py_getitem _ k = Inl (Error ''TypeError'')"

text \<open>\<open>str.strip()\<close>: whitespace characters removed at both ends.\<close>

definition is_space :: "char \<Rightarrow> bool" where
  "is_space c = (c \<in> set [CHR 0x09, CHR 0x0A, CHR 0x0B, CHR 0x0C, CHR 0x0D,
                           CHR 0x1C, CHR 0x1D, CHR 0x1E, CHR 0x1F, CHR 0x20,
                           CHR 0x85, CHR 0xA0])"

definition strip :: "string \<Rightarrow> string" where
  "strip s = rev (dropWhile is_space (rev (dropWhile is_space s)))"

text \<open>
  The library functions the harness calls on text: \<open>json.loads\<close>, which returns a
  value or raises, and \<open>int\<close> on a str, which raises \<open>ValueError\<close> when the str is not an
  integer literal.
\<close>

record builtins =
  loads :: "string \<Rightarrow> exn + json"
  int_of :: "string \<Rightarrow> int option"

section \<open>State of the harness and of its surroundings\<close>

record request =
  rid :: int
  rmethod :: string
  rparams :: json

datatype key_event = Line string | Interrupt

datatype pcall = Terminate | WaitTimeout nat | Kill | Wait

text \<open>What a \<open>print\<close> call (or the prompt of \<open>input\<close>) writes; fixed texts without their emoji.\<close>

datatype msg =
    Text string
  | Rule nat
  | Prompt string
  | Announce string "string list"
  | NotRunning
  | NoResponse
  | SendError exn
  | StartError exn
  | DbError exn
  | ErrorReport json
  | SuccessHdr
  | Dump json
  | RawResponse json

text \<open>
  \<open>process\<close> and \<open>request_id\<close> are the fields of \<open>MCPTester\<close>. The rest is the world:
  \<^item> \<open>stdin_script\<close>: for each coming write to the child's stdin, the exception it raises, if any
    (none once the list is used up);
  \<^item> \<open>stdout_script\<close>: for each coming \<open>readline\<close> on the child's stdout, the line returned or
    the exception raised (the empty str of a closed stream once the list is used up);
  \<^item> \<open>sent\<close>: the requests handed to \<open>process.stdin.write\<close>, oldest first;
  \<^item> \<open>keyboard\<close>: what \<open>input\<close> will read (\<open>EOFError\<close> once used up);
  \<^item> \<open>out\<close>: what was printed; \<open>pcalls\<close>: the calls made on the \<open>Popen\<close> object at shutdown;
    \<open>reaped\<close>: a \<open>wait\<close> has returned;
  \<^item> \<open>argv\<close>, \<open>binary_exists\<close>, \<open>docker_ps\<close>, \<open>compose_up\<close>, \<open>popen_raises\<close>,
    \<open>alive_after_start\<close>, \<open>exits_in_grace\<close>: what \<open>main\<close> finds around it.
\<close>

record state =
  process :: "unit option"
  request_id :: int
  stdin_script :: "exn option list"
  stdout_script :: "(exn + string) list"
  sent :: "request list"
  keyboard :: "key_event list"
  out :: "msg list"
  pcalls :: "pcall list"
  reaped :: bool
  argv :: "string list"
  binary_exists :: bool
  docker_ps :: "exn + string"
  compose_up :: "exn option"
  popen_raises :: "exn option"
  alive_after_start :: bool
  exits_in_grace :: bool

section \<open>Control flow: results, exceptions, handlers\<close>

type_synonym 'a prog = "state \<Rightarrow> (exn + 'a) \<times> state"

definition ret :: "'a \<Rightarrow> 'a prog" where
  "ret x = (\<lambda>s. (Inr x, s))"

definition raise :: "exn \<Rightarrow> 'a prog" where
  "raise e = (\<lambda>s. (Inl e, s))"

definition bnd :: "'a prog \<Rightarrow> ('a \<Rightarrow> 'b prog) \<Rightarrow> 'b prog" where
  "bnd m f = (\<lambda>s. case m s of (Inl e, s') \<Rightarrow> (Inl e, s') | (Inr x, s') \<Rightarrow> f x s')"

definition thn :: "'a prog \<Rightarrow> 'b prog \<Rightarrow> 'b prog" where
  "thn m n = bnd m (\<lambda>_. n)"

definition lift :: "exn + 'a \<Rightarrow> 'a prog" where
  "lift r = (\<lambda>s. (r, s))"

text \<open>\<open>try: m except <classes matched by c>: h\<close> and \<open>try: m finally: fin\<close>.\<close>

definition try_except :: "(exn \<Rightarrow> bool) \<Rightarrow> 'a prog \<Rightarrow> (exn \<Rightarrow> 'a prog) \<Rightarrow> 'a prog" where
  "try_except c m h =
     (\<lambda>s. case m s of
             (Inl e, s') \<Rightarrow> (if c e then h e s' else (Inl e, s'))
           | (Inr x, s') \<Rightarrow> (Inr x, s'))"

definition try_finally :: "'a prog \<Rightarrow> unit prog \<Rightarrow> 'a prog" where
  "try_finally m fin =
     (\<lambda>s. case m s of
             (r, s') \<Rightarrow> (case fin s' of (Inl e, s'') \<Rightarrow> (Inl e, s'') | (Inr _, s'') \<Rightarrow> (r, s'')))"

definition print :: "msg \<Rightarrow> unit prog" where
  "print m = (\<lambda>s. (Inr (), s\<lparr>out := out s @ [m]\<rparr>))"

definition input :: "string \<Rightarrow> string prog" where
  "input prompt =
     (\<lambda>s. case keyboard s of
             [] \<Rightarrow> (Inl (Error ''EOFError''), s\<lparr>out := out s @ [Prompt prompt]\<rparr>)
           | Interrupt # ks \<Rightarrow>
               (Inl KeyboardInterrupt, s\<lparr>keyboard := ks, out := out s @ [Prompt prompt]\<rparr>)
           | Line l # ks \<Rightarrow> (Inr l, s\<lparr>keyboard := ks, out := out s @ [Prompt prompt]\<rparr>))"

section \<open>The child's streams\<close>

definition stdin_write :: "request \<Rightarrow> unit prog" where
  "stdin_write c =
     (\<lambda>s. case stdin_script s of
             [] \<Rightarrow> (Inr (), s\<lparr>sent := sent s @ [c]\<rparr>)
           | None # fs \<Rightarrow> (Inr (), s\<lparr>stdin_script := fs, sent := sent s @ [c]\<rparr>)
           | Some e # fs \<Rightarrow> (Inl e, s\<lparr>stdin_script := fs, sent := sent s @ [c]\<rparr>))"

definition stdout_readline :: "string prog" where
  "stdout_readline =
     (\<lambda>s. case stdout_script s of
             [] \<Rightarrow> (Inr [], s)
           | Inl e # ls \<Rightarrow> (Inl e, s\<lparr>stdout_script := ls\<rparr>)
           | Inr l # ls \<Rightarrow> (Inr l, s\<lparr>stdout_script := ls\<rparr>))"

section \<open>MCPTester\<close>

text \<open>
  The methods of \<open>MCPTester\<close> and \<open>main\<close>, statement by statement. The calls of
  \<open>time.sleep\<close> and the copy of the environment handed to \<open>Popen\<close> change nothing that is
  kept here and are left out.
\<close>

definition MCPTester_init :: "unit prog" where
  "MCPTester_init = (\<lambda>s. (Inr (), s\<lparr>process := None, request_id := 1\<rparr>))"

definition bump_request_id :: "unit prog" where
  "bump_request_id = (\<lambda>s. (Inr (), s\<lparr>request_id := request_id s + 1\<rparr>))"

definition send_command :: "builtins \<Rightarrow> string \<Rightarrow> json \<Rightarrow> json option prog" where
  "send_command B method params =
     (\<lambda>s. if process s = None then thn (print NotRunning) (ret None) s
          else
            let command = \<lparr>rid = request_id s, rmethod = method,
                           rparams = py_or params (JObj [])\<rparr>
            in try_except is_Exception
                 (thn (stdin_write command)
                   (bnd stdout_readline (\<lambda>response_line.
                      if response_line \<noteq> [] then
                        bnd (lift (loads B (strip response_line))) (\<lambda>response.
                          thn bump_request_id (ret (Some response)))
                      else thn (print NoResponse) (ret None))))
                 (\<lambda>e. thn (print (SendError e)) (ret None)) s)"

definition print_response :: "json \<Rightarrow> unit prog" where
  "print_response response =
     thn (bnd (lift (py_in ''error'' response)) (\<lambda>has_error.
            if has_error then
              bnd (lift (py_getitem response ''error'')) (\<lambda>e. print (ErrorReport e))
            else
              bnd (lift (py_in ''result'' response)) (\<lambda>has_result.
                if has_result then
                  thn (print SuccessHdr)
                    (bnd (lift (py_getitem response ''result'')) (\<lambda>r. print (Dump r)))
                else print (RawResponse response))))
         (print (Rule 50))"

definition when_response :: "json option \<Rightarrow> (json \<Rightarrow> unit prog) \<Rightarrow> unit prog" where
  \<comment> \<open>\<open>if response: ...\<close> on the value returned by \<open>send_command\<close>\<close>
  "when_response response body =
     (case response of None \<Rightarrow> ret () | Some r \<Rightarrow> if truthy r then body r else ret ())"

definition initialize_params :: json where
  "initialize_params =
     JObj [(''protocolVersion'', JStr ''2024-11-05''),
           (''capabilities'', JObj []),
           (''clientInfo'', JObj [(''name'', JStr ''manual-tester''),
                                  (''version'', JStr ''1.0.0'')])]"

definition initialize :: "builtins \<Rightarrow> bool prog" where
  "initialize B =
     thn (print (Text ''Initializing MCP session...''))
       (bnd (send_command B ''initialize'' initialize_params) (\<lambda>response.
          case response of
            None \<Rightarrow> ret False
          | Some r \<Rightarrow> if truthy r then thn (print_response r) (ret True) else ret False))"

definition tool_params :: "string \<Rightarrow> (string \<times> json) list \<Rightarrow> json" where
  "tool_params name arguments = JObj [(''name'', JStr name), (''arguments'', JObj arguments)]"

definition test_list_schemas :: "builtins \<Rightarrow> string \<Rightarrow> unit prog" where
  "test_list_schemas B connection =
     thn (print (Announce ''Listing schemas'' [connection]))
       (bnd (send_command B ''tools/call''
               (tool_params ''list_schemas'' [(''database'', JStr connection)]))
          (\<lambda>response. when_response response print_response))"

definition test_list_tables :: "builtins \<Rightarrow> string \<Rightarrow> string \<Rightarrow> unit prog" where
  "test_list_tables B connection schema =
     thn (print (Announce ''Listing tables'' [connection, schema]))
       (bnd (send_command B ''tools/call''
               (tool_params ''list_tables''
                  [(''database'', JStr connection), (''schema'', JStr schema)]))
          (\<lambda>response. when_response response print_response))"

definition test_describe_table :: "builtins \<Rightarrow> string \<Rightarrow> string \<Rightarrow> string \<Rightarrow> unit prog" where
  "test_describe_table B connection schema table =
     thn (print (Announce ''Describing table'' [connection, schema, table]))
       (bnd (send_command B ''tools/call''
               (tool_params ''describe_table''
                  [(''database'', JStr connection), (''schema'', JStr schema),
                   (''table'', JStr table)]))
          (\<lambda>response. when_response response print_response))"

definition test_run_sql :: "builtins \<Rightarrow> string \<Rightarrow> string \<Rightarrow> int \<Rightarrow> unit prog" where
  "test_run_sql B connection query limit =
     thn (print (Announce ''Running SQL'' [connection, take 50 query]))
       (bnd (send_command B ''tools/call''
               (tool_params ''run_sql''
                  [(''database'', JStr connection), (''query'', JStr query),
                   (''limit'', JInt limit)]))
          (\<lambda>response. when_response response print_response))"

definition test_explain_sql :: "builtins \<Rightarrow> string \<Rightarrow> string \<Rightarrow> unit prog" where
  "test_explain_sql B connection query =
     thn (print (Announce ''Explaining SQL'' [connection, take 50 query]))
       (bnd (send_command B ''tools/call''
               (tool_params ''explain_sql''
                  [(''database'', JStr connection), (''query'', JStr query)]))
          (\<lambda>response. when_response response print_response))"

definition postgres_tests :: "builtins \<Rightarrow> unit prog" where
  "postgres_tests B =
     thn (print (Text ''Testing PostgreSQL Connection...''))
    (thn (test_list_schemas B ''primary'')
    (thn (test_list_tables B ''primary'' ''public'')
    (thn (test_run_sql B ''primary'' ''SELECT current_database(), version()'' 1)
    (thn (test_run_sql B ''primary''
            (''SELECT schemaname, tablename FROM pg_tables WHERE schemaname = ''
               @ [CHR 0x27] @ ''public'' @ [CHR 0x27]) 5)
         (test_explain_sql B ''primary'' ''SELECT * FROM pg_tables LIMIT 5'')))))"

definition clickhouse_tests :: "builtins \<Rightarrow> unit prog" where
  "clickhouse_tests B =
     thn (print (Text ''Testing ClickHouse Connection...''))
    (thn (test_list_schemas B ''analytics'')
    (thn (test_list_tables B ''analytics'' ''default'')
    (thn (test_describe_table B ''analytics'' ''default'' ''events'')
    (thn (test_run_sql B ''analytics'' ''SELECT count(*) as total_events FROM events'' 1)
    (thn (test_run_sql B ''analytics''
            ''SELECT event_type, count(*) as count FROM events GROUP BY event_type'' 10)
         (test_explain_sql B ''analytics''
            ''SELECT event_type, count(*) FROM events GROUP BY event_type''))))))"

definition run_comprehensive_test :: "builtins \<Rightarrow> unit prog" where
  "run_comprehensive_test B =
     thn (print (Text ''Running Comprehensive MCP Database Server Test''))
    (thn (print (Rule 60))
    (bnd (initialize B) (\<lambda>ok.
       if \<not> ok then print (Text ''Failed to initialize. Stopping tests.'')
       else
         thn (postgres_tests B)
        (thn (clickhouse_tests B)
             (print (Text ''Comprehensive test completed!''))))))"

definition print_menu :: "unit prog" where
  "print_menu =
     thn (print (Text ''Available commands:''))
    (thn (print (Text ''1. List schemas (PostgreSQL)''))
    (thn (print (Text ''2. List schemas (ClickHouse)''))
    (thn (print (Text ''3. List tables''))
    (thn (print (Text ''4. Describe table''))
    (thn (print (Text ''5. Run SQL query''))
    (thn (print (Text ''6. Explain SQL query''))
    (thn (print (Text ''7. Run comprehensive test''))
         (print (Text ''8. Exit'')))))))))"

definition input_stripped :: "string \<Rightarrow> string prog" where
  "input_stripped prompt = bnd (input prompt) (\<lambda>l. ret (strip l))"

text \<open>
  The body of \<open>while True\<close> in \<open>interactive_mode\<close>: \<open>menu_dispatch\<close> is the
  \<open>if ... elif\<close> chain on the choice, \<open>menu_body\<close> one pass through the body. The
  result is \<open>False\<close> on \<open>break\<close> and \<open>True\<close> when the loop goes round again.
\<close>

definition menu_dispatch :: "builtins \<Rightarrow> string \<Rightarrow> bool prog" where
  "menu_dispatch B choice =
     (if choice = ''1'' then thn (test_list_schemas B ''primary'') (ret True)
      else if choice = ''2'' then thn (test_list_schemas B ''analytics'') (ret True)
      else if choice = ''3'' then
        bnd (input_stripped ''Enter connection (primary/analytics): '') (\<lambda>connection.
        bnd (input_stripped ''Enter schema name: '') (\<lambda>schema.
        thn (test_list_tables B connection schema) (ret True)))
      else if choice = ''4'' then
        bnd (input_stripped ''Enter connection (primary/analytics): '') (\<lambda>connection.
        bnd (input_stripped ''Enter schema name: '') (\<lambda>schema.
        bnd (input_stripped ''Enter table name: '') (\<lambda>table.
        thn (test_describe_table B connection schema table) (ret True))))
      else if choice = ''5'' then
        bnd (input_stripped ''Enter connection (primary/analytics): '') (\<lambda>connection.
        bnd (input_stripped ''Enter SQL query: '') (\<lambda>query.
        bnd (input_stripped ''Enter limit (default 10): '') (\<lambda>limit.
        bnd (if limit \<noteq> [] then
               (case int_of B limit of
                  None \<Rightarrow> raise (Error ''ValueError'')
                | Some n \<Rightarrow> ret n)
             else ret 10) (\<lambda>limit.
        thn (test_run_sql B connection query limit) (ret True)))))
      else if choice = ''6'' then
        bnd (input_stripped ''Enter connection (primary/analytics): '') (\<lambda>connection.
        bnd (input_stripped ''Enter SQL query: '') (\<lambda>query.
        thn (test_explain_sql B connection query) (ret True)))
      else if choice = ''7'' then thn (run_comprehensive_test B) (ret True)
      else if choice = ''8'' then ret False
      else thn (print (Text ''Invalid choice. Please try again.'')) (ret True))"

definition menu_body :: "builtins \<Rightarrow> bool prog" where
  "menu_body B =
     thn print_menu (bnd (input_stripped ''Enter your choice (1-8): '') (menu_dispatch B))"

function menu_loop :: "builtins \<Rightarrow> unit prog" where
  "menu_loop B s =
     (case menu_body B s of
        (Inl e, s') \<Rightarrow> (Inl e, s')
      | (Inr again, s') \<Rightarrow> if again then menu_loop B s' else (Inr (), s'))"
  by pat_completeness auto

definition interactive_mode :: "builtins \<Rightarrow> unit prog" where
  "interactive_mode B =
     thn (print (Text ''Interactive MCP Database Server Tester''))
    (thn (print (Rule 50))
    (bnd (initialize B) (\<lambda>ok.
       if \<not> ok then print (Text ''Failed to initialize. Exiting.'')
       else menu_loop B)))"

text \<open>
  The calls on the \<open>Popen\<close> object: \<open>wait(timeout=3)\<close> returns when the child exits
  within the grace period and raises \<open>TimeoutExpired\<close> otherwise; \<open>wait()\<close> after
  \<open>kill\<close> returns.
\<close>

definition pcall :: "pcall \<Rightarrow> unit prog" where
  "pcall c = (\<lambda>s. (Inr (), s\<lparr>pcalls := pcalls s @ [c]\<rparr>))"

definition wait_timeout :: "nat \<Rightarrow> unit prog" where
  "wait_timeout n =
     (\<lambda>s. if exits_in_grace s
          then (Inr (), s\<lparr>pcalls := pcalls s @ [WaitTimeout n], reaped := True\<rparr>)
          else (Inl (Error ''TimeoutExpired''), s\<lparr>pcalls := pcalls s @ [WaitTimeout n]\<rparr>))"

definition wait :: "unit prog" where
  "wait = (\<lambda>s. (Inr (), s\<lparr>pcalls := pcalls s @ [Wait], reaped := True\<rparr>))"

definition cleanup :: "unit prog" where
  "cleanup =
     (\<lambda>s. if process s \<noteq> None then
            thn (print (Text ''Stopping server...''))
           (thn (pcall Terminate)
           (thn (try_except (\<lambda>e. e = Error ''TimeoutExpired'')
                   (wait_timeout 3)
                   (\<lambda>e. thn (print (Text ''Force killing server...''))
                        (thn (pcall Kill) wait)))
                (print (Text ''Server stopped'')))) s
          else (Inr (), s))"

definition popen :: "unit prog" where
  "popen = (\<lambda>s. case popen_raises s of
                   Some e \<Rightarrow> (Inl e, s)
                 | None \<Rightarrow> (Inr (), s\<lparr>process := Some ()\<rparr>))"

definition start_server :: "bool prog" where
  "start_server =
     try_except is_Exception
       (thn popen
          (\<lambda>s. if alive_after_start s
               then thn (print (Text ''MCP Server started successfully'')) (ret True) s
               else thn (print (Text ''Failed to start MCP Server'')) (ret False) s))
       (\<lambda>e. thn (print (StartError e)) (ret False))"

datatype mode = Comprehensive | Interactive

definition check_databases :: "unit prog" where
  "check_databases =
     try_except is_Exception
       (bnd (\<lambda>s. (docker_ps s, s)) (\<lambda>result_stdout.
          if \<not> contains ''database-mcp-postgres'' result_stdout
             \<or> \<not> contains ''database-mcp-clickhouse'' result_stdout
          then
            thn (print (Text ''Database containers not running. Starting them...''))
           (thn (\<lambda>s. case compose_up s of Some e \<Rightarrow> (Inl e, s) | None \<Rightarrow> (Inr (), s))
                (print (Text ''Waiting for databases to be ready...'')))
          else ret ()))
       (\<lambda>e. thn (print (DbError e)) (raise (SystemExit 1)))"

definition session_body :: "builtins \<Rightarrow> mode \<Rightarrow> unit prog" where
  \<comment> \<open>the \<open>try ... except KeyboardInterrupt\<close> part of \<open>main\<close>\<close>
  "session_body B m =
     try_except is_KeyboardInterrupt
       (bnd start_server (\<lambda>ok.
          if \<not> ok then raise (SystemExit 1)
          else if m = Comprehensive then run_comprehensive_test B
          else interactive_mode B))
       (\<lambda>e. print (Text ''Interrupted by user''))"

definition session :: "builtins \<Rightarrow> mode \<Rightarrow> unit prog" where
  \<comment> \<open>the whole \<open>try\<close> statement of \<open>main\<close>, with its \<open>finally\<close>\<close>
  "session B m = try_finally (session_body B m) cleanup"

definition main :: "builtins \<Rightarrow> unit prog" where
  "main B =
     (\<lambda>s. let m = (if length (argv s) > 1 \<and> argv s ! 1 = ''--comprehensive''
                    then Comprehensive else Interactive)
          in (if \<not> binary_exists s then
                thn (print (Text ''Server binary not found. Please build first:''))
               (thn (print (Text ''   make build'')) (raise (SystemExit 1)))
              else
                thn check_databases (thn MCPTester_init (session B m))) s)"

section \<open>Relations kept by every run of a program\<close>

text \<open>
  \<open>stays R m\<close>: whatever \<open>m\<close> returns or raises, the state it leaves is related by \<open>R\<close>
  to the state it started from.
\<close>

definition stays :: "(state \<Rightarrow> state \<Rightarrow> bool) \<Rightarrow> 'a prog \<Rightarrow> bool" where
  "stays R m = (\<forall>s. R s (snd (m s)))"

definition same :: "(state \<Rightarrow> 'a) \<Rightarrow> state \<Rightarrow> state \<Rightarrow> bool" where
  "same f s s' = (f s' = f s)"

definition kb_le :: "state \<Rightarrow> state \<Rightarrow> bool" where
  "kb_le s s' = (length (keyboard s') \<le> length (keyboard s))"

section \<open>What a run printed\<close>

text \<open>
  \<open>response_report kvs\<close> is what \<open>print_response\<close> prints for the dict \<open>kvs\<close> (lemma
  \<open>print_response_dict\<close>); \<open>dict_report\<close> adds the test \<open>if response:\<close> of the callers.
\<close>

definition response_report :: "(string \<times> json) list \<Rightarrow> msg list" where
  "response_report kvs =
     (case map_of kvs ''error'' of
        Some e \<Rightarrow> [ErrorReport e, Rule 50]
      | None \<Rightarrow>
          (case map_of kvs ''result'' of
             Some r \<Rightarrow> [SuccessHdr, Dump r, Rule 50]
           | None \<Rightarrow> [RawResponse (JObj kvs), Rule 50]))"

definition dict_report :: "(string \<times> json) list \<Rightarrow> msg list" where
  "dict_report kvs = (if kvs \<noteq> [] then response_report kvs else [])"

fun is_success_hdr :: "msg \<Rightarrow> bool" where
  "is_success_hdr SuccessHdr = True"
| "is_success_hdr _ = False"

fun is_error_report :: "msg \<Rightarrow> bool" where
  "is_error_report (ErrorReport _) = True"
| "is_error_report _ = False"

fun is_announce :: "msg \<Rightarrow> bool" where
  "is_announce (Announce _ _) = True"
| "is_announce _ = False"

definition has_error :: "(string \<times> json) list \<Rightarrow> bool" where
  "has_error kvs = (map_of kvs ''error'' \<noteq> None)"

definition has_result_only :: "(string \<times> json) list \<Rightarrow> bool" where
  "has_result_only kvs = (map_of kvs ''error'' = None \<and> map_of kvs ''result'' \<noteq> None)"

definition decodes_to :: "builtins \<Rightarrow> string \<Rightarrow> (string \<times> json) list \<Rightarrow> bool" where
  "decodes_to B l k = (l \<noteq> [] \<and> loads B (strip l) = Inr (JObj k))"

section \<open>What a run sent\<close>





section \<open>Shutdown\<close>

text \<open>
  The calls that \<open>cleanup\<close> makes on a process: \<open>terminate\<close> and a wait of three
  seconds, and \<open>kill\<close> with a second wait when the child did not exit in time.
\<close>

definition shutdown_calls :: "state \<Rightarrow> pcall list" where
  "shutdown_calls s =
     (if exits_in_grace s then [Terminate, WaitTimeout 3]
      else [Terminate, WaitTimeout 3, Kill, Wait])"

section \<open>Passes through the menu\<close>

text \<open>
  \<open>after_passes B n s\<close> is the state after \<open>n\<close> passes through the body of the menu loop
  from \<open>s\<close>, each of which goes round again; \<open>None\<close> when one of them breaks or raises.
\<close>

fun after_passes :: "builtins \<Rightarrow> nat \<Rightarrow> state \<Rightarrow> state option" where
  "after_passes B 0 s = Some s"
| "after_passes B (Suc n) s =
     (case menu_body B s of
        (Inr True, s1) \<Rightarrow> after_passes B n s1
      | _ \<Rightarrow> None)"

section \<open>A world for the examples\<close>

text \<open>
  Nothing scripted, nothing typed, nothing printed yet: the child answers no request, the
  binary and the containers are there, and the child starts and stops as asked.
  \<open>started\<close> is that world with a tester whose server runs.
\<close>

definition world0 :: state where
  "world0 = \<lparr>process = None, request_id = 0, stdin_script = [], stdout_script = [],
     sent = [], keyboard = [], out = [], pcalls = [], reaped = False, argv = [],
     binary_exists = True, docker_ps = Inr [], compose_up = None, popen_raises = None,
     alive_after_start = True, exits_in_grace = True\<rparr>"

definition started :: state where
  "started = world0\<lparr>process := Some (), request_id := 1\<rparr>"

text \<open>
  Stand-ins for \<open>json.loads\<close> and \<open>int\<close> in the examples: \<open>loads0\<close> decodes the response
  lines listed in \<open>loads_table\<close> and raises \<open>JSONDecodeError\<close> on any other text;
  \<open>int_of0\<close> reads an optional sign followed by ASCII digits.
\<close>

definition digit_table :: "(char \<times> int) list" where
  "digit_table = [(CHR ''0'', 0), (CHR ''1'', 1), (CHR ''2'', 2), (CHR ''3'', 3), (CHR ''4'', 4),
                  (CHR ''5'', 5), (CHR ''6'', 6), (CHR ''7'', 7), (CHR ''8'', 8), (CHR ''9'', 9)]"

fun digits_val :: "string \<Rightarrow> int \<Rightarrow> int option" where
  "digits_val [] acc = Some acc"
| "digits_val (c # cs) acc =
     (case map_of digit_table c of None \<Rightarrow> None | Some d \<Rightarrow> digits_val cs (10 * acc + d))"

definition int_of0 :: "string \<Rightarrow> int option" where
  "int_of0 s =
     (case s of
        [] \<Rightarrow> None
      | c # cs \<Rightarrow>
          if c = CHR ''-'' then (if cs = [] then None else map_option uminus (digits_val cs 0))
          else if c = CHR ''+'' then (if cs = [] then None else digits_val cs 0)
          else digits_val s 0)"

definition ok_text :: "string \<Rightarrow> string" where
  \<open>ok_text n = ''{"jsonrpc": "2.0", "id": '' @ n @ '', "result": {}}''\<close>

definition ok_json :: "int \<Rightarrow> json" where
  "ok_json n = JObj [(''jsonrpc'', JStr ''2.0''), (''id'', JInt n), (''result'', JObj [])]"

definition err_text :: "string \<Rightarrow> string" where
  \<open>err_text n =
     ''{"jsonrpc": "2.0", "id": '' @ n @ '', "error": {"code": -32603, "message": "boom"}}''\<close>

definition err_json :: "int \<Rightarrow> json" where
  "err_json n = JObj [(''jsonrpc'', JStr ''2.0''), (''id'', JInt n),
                    (''error'', JObj [(''code'', JInt (-32603)), (''message'', JStr ''boom'')])]"

definition odd_text :: string where
  \<open>odd_text = ''{"jsonrpc": "2.0", "id": 99}''\<close>

definition odd_json :: json where
  "odd_json = JObj [(''jsonrpc'', JStr ''2.0''), (''id'', JInt 99)]"

definition loads_table :: "(string \<times> json) list" where
  "loads_table =
     map (\<lambda>(t, n). (ok_text t, ok_json n))
       [(''1'', 1), (''2'', 2), (''3'', 3), (''4'', 4), (''5'', 5), (''6'', 6), (''7'', 7),
        (''8'', 8), (''9'', 9), (''10'', 10), (''11'', 11), (''12'', 12), (''13'', 13)]
     @ [(err_text ''1'', err_json 1), (err_text ''9'', err_json 9), (odd_text, odd_json)]"

definition loads0 :: "string \<Rightarrow> exn + json" where
  "loads0 t = (case map_of loads_table t of
                 None \<Rightarrow> Inl (Error ''JSONDecodeError'')
               | Some v \<Rightarrow> Inr v)"

definition B0 :: builtins where
  "B0 = \<lparr>loads = loads0, int_of = int_of0\<rparr>"

definition reply :: "string \<Rightarrow> exn + string" where
  "reply t = Inr (t @ [CHR 0x0A])"


definition one_error_world :: state where
  "one_error_world =
     started\<lparr>stdout_script := map reply
       [ok_text ''1'', ok_text ''2'', ok_text ''3'', ok_text ''4'', ok_text ''5'', ok_text ''6'',
        ok_text ''7'', ok_text ''8'', err_text ''9'', ok_text ''10'', ok_text ''11'',
        ok_text ''12'']\<rparr>"

definition dict_of :: "json \<Rightarrow> (string \<times> json) list" where
  "dict_of v = (case v of JObj kvs \<Rightarrow> kvs | _ \<Rightarrow> [])"

definition one_error_lines :: "string list" where
  "one_error_lines =
     map (\<lambda>t. t @ [CHR 0x0A])
       [ok_text ''1'', ok_text ''2'', ok_text ''3'', ok_text ''4'', ok_text ''5'', ok_text ''6'',
        ok_text ''7'', ok_text ''8'', err_text ''9'', ok_text ''10'', ok_text ''11'',
        ok_text ''12'']"

definition one_error_dicts :: "(string \<times> json) list list" where
  "one_error_dicts =
     map dict_of
       [ok_json 1, ok_json 2, ok_json 3, ok_json 4, ok_json 5, ok_json 6, ok_json 7, ok_json 8,
        err_json 9, ok_json 10, ok_json 11, ok_json 12]"



text \<open>
  Two worlds for \<open>main\<close>, both with the containers running: in one the operator
  interrupts the first prompt of the interactive menu; in the other the harness runs the
  comprehensive script against a child that ignores \<open>terminate\<close>.
\<close>

definition docker_up :: string where
  "docker_up = ''NAMES database-mcp-postgres database-mcp-clickhouse''"



text \<open>
  An interactive session in which the operator lists the schemas and then asks for a query
  with the limit "ten": the world \<open>main\<close> starts in, the state once the server has
  started, and the state once the handshake is done.
\<close>

definition bad_limit_world :: state where
  "bad_limit_world =
     world0\<lparr>argv := [''test-interactive.py''], docker_ps := Inr docker_up,
       stdout_script := [reply (ok_text ''1''), reply (ok_text ''2'')],
       keyboard := [Line ''1'', Line ''5'', Line ''primary'', Line ''SELECT 1'', Line ''ten'',
                    Line ''8'']\<rparr>"

definition bad_limit_started :: state where
  "bad_limit_started =
     bad_limit_world\<lparr>process := Some (), request_id := 1,
       out := [Text ''MCP Server started successfully'']\<rparr>"

definition bad_limit_ready :: state where
  "bad_limit_ready =
     bad_limit_started\<lparr>
       stdout_script := [reply (ok_text ''2'')],
       sent := [\<lparr>rid = 1, rmethod = ''initialize'', rparams = initialize_params\<rparr>],
       request_id := 2,
       out := [Text ''MCP Server started successfully'',
               Text ''Interactive MCP Database Server Tester'', Rule 50,
               Text ''Initializing MCP session...'', SuccessHdr, Dump (JObj []), Rule 50]\<rparr>"

section \<open>Rules for \<open>stays\<close>\<close>

lemma reflp_same: "reflp (same f)" by (simp add: reflp_def same_def)
lemma transp_same: "transp (same f)" by (simp add: transp_def same_def)
lemma reflp_kb_le: "reflp kb_le" by (simp add: reflp_def kb_le_def)
lemma transp_kb_le: "transp kb_le" by (auto simp: transp_def kb_le_def)

lemma stays_ret: "reflp R \<Longrightarrow> stays R (ret x)"
  by (simp add: stays_def ret_def reflp_def)
lemma stays_raise: "reflp R \<Longrightarrow> stays R (raise e)"
  by (simp add: stays_def raise_def reflp_def)
lemma stays_lift: "reflp R \<Longrightarrow> stays R (lift r)"
  by (simp add: stays_def lift_def reflp_def)
lemma stays_bnd:
  assumes "transp R" "stays R m" "\<And>x. stays R (f x)"
  shows "stays R (bnd m f)"
  unfolding stays_def bnd_def
proof
  fix s
  obtain r s1 where m: "m s = (r, s1)" by (cases "m s")
  from assms(2) m have 1: "R s s1" by (auto simp: stays_def dest: spec[of _ s])
  show "R s (snd (case m s of (Inl e, s') \<Rightarrow> (Inl e, s') | (Inr x, s') \<Rightarrow> f x s'))"
  proof (cases r)
    case (Inl e) then show ?thesis using m 1 by simp
  next
    case (Inr x)
    from assms(3)[of x] have "R s1 (snd (f x s1))" by (simp add: stays_def)
    with 1 assms(1) have "R s (snd (f x s1))" by (auto dest: transpD)
    then show ?thesis using m Inr by simp
  qed
qed
lemma stays_thn: "transp R \<Longrightarrow> stays R m \<Longrightarrow> stays R n \<Longrightarrow> stays R (thn m n)"
  by (simp add: thn_def stays_bnd)
lemma stays_if: "stays R a \<Longrightarrow> stays R b \<Longrightarrow> stays R (if c then a else b)"
  by simp
lemma stays_when_response:
  "reflp R \<Longrightarrow> (\<And>r. stays R (body r)) \<Longrightarrow> stays R (when_response response body)"
  by (simp add: when_response_def stays_ret split: option.splits)

lemma stays_print_same: "(\<And>s x. f (s\<lparr>out := x\<rparr>) = f s) \<Longrightarrow> stays (same f) (print m)"
  by (simp add: stays_def same_def print_def)

lemma stays_print_response: "reflp R \<Longrightarrow> transp R \<Longrightarrow> (\<And>m. stays R (print m)) \<Longrightarrow> stays R (print_response r)"
  unfolding print_response_def
  by (intro stays_thn stays_bnd stays_lift stays_if) simp_all

lemma stays_send_command_same:
  assumes "\<And>s x. f (s\<lparr>out := x\<rparr>) = f s" "\<And>s x. f (s\<lparr>sent := x\<rparr>) = f s"
    "\<And>s x. f (s\<lparr>stdin_script := x\<rparr>) = f s" "\<And>s x. f (s\<lparr>stdout_script := x\<rparr>) = f s"
    "\<And>s x. f (s\<lparr>request_id := x\<rparr>) = f s"
  shows "stays (same f) (send_command B method params)"
  using assms
  by (auto simp: stays_def same_def send_command_def Let_def thn_def bnd_def ret_def print_def
      try_except_def stdin_write_def stdout_readline_def lift_def bump_request_id_def
      split: list.splits option.splits sum.splits prod.splits if_splits)

lemma stays_input_stripped: "transp R \<Longrightarrow> reflp R \<Longrightarrow> stays R (input p) \<Longrightarrow> stays R (input_stripped p)"
  unfolding input_stripped_def by (intro stays_bnd stays_ret) simp_all

lemma stays_print_menu: "transp R \<Longrightarrow> (\<And>m. stays R (print m)) \<Longrightarrow> stays R print_menu"
  unfolding print_menu_def by (intro stays_thn) simp_all

lemma stays_initialize:
  assumes "reflp R" "transp R" "\<And>m. stays R (print m)"
    "stays R (send_command B ''initialize'' initialize_params)"
  shows "stays R (initialize B)"
  unfolding initialize_def
  by (intro stays_thn stays_bnd assms)
     (auto split: option.splits intro!: stays_ret stays_thn stays_print_response assms)

lemma stays_tests:
  assumes "reflp R" "transp R" "\<And>m. stays R (print m)"
    "\<And>ps. stays R (send_command B ''tools/call'' ps)"
  shows "stays R (test_list_schemas B c)" "stays R (test_list_tables B c sc)"
    "stays R (test_describe_table B c sc tb)" "stays R (test_run_sql B c q l)"
    "stays R (test_explain_sql B c q)"
  unfolding test_list_schemas_def test_list_tables_def test_describe_table_def test_run_sql_def
    test_explain_sql_def
  by (intro stays_thn stays_bnd stays_when_response stays_print_response assms)+

lemma stays_scripted_tests:
  assumes "reflp R" "transp R" "\<And>m. stays R (print m)"
    "\<And>ps. stays R (send_command B ''tools/call'' ps)"
  shows "stays R (postgres_tests B)" "stays R (clickhouse_tests B)"
  unfolding postgres_tests_def clickhouse_tests_def
  by (intro stays_thn stays_tests assms)+

lemma stays_run_comprehensive_test:
  assumes "reflp R" "transp R" "\<And>m. stays R (print m)"
    "stays R (send_command B ''initialize'' initialize_params)"
    "\<And>ps. stays R (send_command B ''tools/call'' ps)"
  shows "stays R (run_comprehensive_test B)"
  unfolding run_comprehensive_test_def
  by (intro stays_thn stays_bnd stays_if stays_initialize stays_scripted_tests assms)

lemma stays_menu_dispatch_other:
  assumes "choice \<noteq> ''7''" "reflp R" "transp R" "\<And>m. stays R (print m)"
    "\<And>ps. stays R (send_command B ''tools/call'' ps)" "\<And>p. stays R (input p)"
  shows "stays R (menu_dispatch B choice)"
  unfolding menu_dispatch_def if_not_P [OF assms(1)]
  by (intro stays_thn stays_bnd stays_if stays_ret stays_raise stays_input_stripped
      stays_tests assms(2-))
     (auto split: option.splits intro!: stays_ret stays_raise assms(2-))

lemma stays_menu_dispatch:
  assumes "reflp R" "transp R" "\<And>m. stays R (print m)"
    "stays R (send_command B ''initialize'' initialize_params)"
    "\<And>ps. stays R (send_command B ''tools/call'' ps)" "\<And>p. stays R (input p)"
  shows "stays R (menu_dispatch B choice)"
proof (cases "choice = ''7''")
  case True
  then have "menu_dispatch B choice = thn (run_comprehensive_test B) (ret True)"
    by (simp add: menu_dispatch_def)
  then show ?thesis
    by (simp add: stays_thn stays_ret stays_run_comprehensive_test assms)
next
  case False
  then show ?thesis by (rule stays_menu_dispatch_other) (rule assms)+
qed

lemma stays_menu_body:
  assumes "reflp R" "transp R" "\<And>m. stays R (print m)"
    "stays R (send_command B ''initialize'' initialize_params)"
    "\<And>ps. stays R (send_command B ''tools/call'' ps)" "\<And>p. stays R (input p)"
  shows "stays R (menu_body B)"
  unfolding menu_body_def
  by (intro stays_thn stays_bnd stays_print_menu stays_input_stripped stays_menu_dispatch assms)

section \<open>Termination of the menu loop\<close>

lemma stays_input_kb_le: "stays kb_le (input p)"
  by (auto simp: stays_def kb_le_def input_def split: list.splits key_event.splits)

lemma stays_same_weaken: "stays (same keyboard) m \<Longrightarrow> stays kb_le m"
  by (simp add: stays_def same_def kb_le_def)

lemma stays_print_kb_le: "stays kb_le (print m)"
  by (simp add: stays_same_weaken stays_print_same)

lemma stays_send_command_kb_le: "stays kb_le (send_command B me ps)"
  by (simp add: stays_same_weaken stays_send_command_same)

lemma menu_body_consumes:
  assumes "menu_body B s = (Inr b, s')"
  shows "length (keyboard s') < length (keyboard s)"
proof -
  obtain r1 s1 where p: "print_menu s = (r1, s1)" by (cases "print_menu s")
  have "stays (same keyboard) print_menu"
    by (intro stays_print_menu transp_same stays_print_same) simp
  with p have k1: "keyboard s1 = keyboard s" by (auto simp: stays_def same_def dest: spec[of _ s])
  obtain r2 s2 where i: "input ''Enter your choice (1-8): '' s1 = (r2, s2)"
    by (cases "input ''Enter your choice (1-8): '' s1")
  from assms p i obtain l where r2: "r2 = Inr l" and d: "menu_dispatch B (strip l) s2 = (Inr b, s')"
    by (auto simp: menu_body_def thn_def bnd_def input_stripped_def ret_def split: sum.splits prod.splits)
  from i r2 have k2: "length (keyboard s2) < length (keyboard s1)"
    by (auto simp: input_def split: list.splits key_event.splits)
  have "stays kb_le (menu_dispatch B (strip l))"
    by (intro stays_menu_dispatch reflp_kb_le transp_kb_le stays_print_kb_le
        stays_send_command_kb_le stays_input_kb_le)
  with d have "length (keyboard s') \<le> length (keyboard s2)"
    by (auto simp: stays_def kb_le_def dest: spec[of _ s2])
  with k1 k2 show ?thesis by simp
qed

termination menu_loop
  by (relation "measure (\<lambda>(B, s). length (keyboard s))")
     (auto dest: menu_body_consumes [OF sym])



section \<open>Exact results of single calls\<close>

lemma py_in_dict: "py_in k (JObj kvs) = Inr (map_of kvs k \<noteq> None)"
  by (simp add: map_of_eq_None_iff)

lemma print_response_dict:
  "print_response (JObj kvs) s = (Inr (), s\<lparr>out := out s @ response_report kvs\<rparr>)"
  by (auto simp: print_response_def response_report_def thn_def bnd_def lift_def print_def
      py_in_dict simp del: py_in.simps split: option.splits)

lemma send_command_decoded:
  assumes "process s \<noteq> None" "stdin_script s = []" "stdout_script s = Inr line # rest"
    "line \<noteq> []" "loads B (strip line) = Inr r"
  shows "send_command B m p s =
    (Inr (Some r),
     s\<lparr>stdout_script := rest,
       sent := sent s @ [\<lparr>rid = request_id s, rmethod = m, rparams = py_or p (JObj [])\<rparr>],
       request_id := request_id s + 1\<rparr>)"
  using assms
  by (simp add: send_command_def Let_def try_except_def thn_def bnd_def stdin_write_def
      stdout_readline_def lift_def bump_request_id_def ret_def)

lemma send_command_undecodable:
  assumes "process s \<noteq> None" "stdin_script s = []" "stdout_script s = Inr line # rest"
    "line \<noteq> []" "loads B (strip line) = Inl e" "is_Exception e"
  shows "send_command B m p s =
    (Inr None,
     s\<lparr>stdout_script := rest,
       sent := sent s @ [\<lparr>rid = request_id s, rmethod = m, rparams = py_or p (JObj [])\<rparr>],
       out := out s @ [SendError e]\<rparr>)"
  using assms
  by (simp add: send_command_def Let_def try_except_def thn_def bnd_def stdin_write_def
      stdout_readline_def lift_def bump_request_id_def ret_def print_def)


lemma test_dict:
  assumes "process s \<noteq> None" "stdin_script s = []" "stdout_script s = Inr line # rest"
    "line \<noteq> []" "loads B (strip line) = Inr (JObj kvs)"
  shows "test_list_schemas B c s =
    (Inr (),
     s\<lparr>stdout_script := rest,
       sent := sent s @ [\<lparr>rid = request_id s, rmethod = ''tools/call'',
                rparams = tool_params ''list_schemas'' [(''database'', JStr c)]\<rparr>],
       request_id := request_id s + 1,
       out := out s @ Announce ''Listing schemas'' [c] # dict_report kvs\<rparr>)"
  and "test_list_tables B c sc s =
    (Inr (),
     s\<lparr>stdout_script := rest,
       sent := sent s @ [\<lparr>rid = request_id s, rmethod = ''tools/call'',
                rparams = tool_params ''list_tables''
                  [(''database'', JStr c), (''schema'', JStr sc)]\<rparr>],
       request_id := request_id s + 1,
       out := out s @ Announce ''Listing tables'' [c, sc] # dict_report kvs\<rparr>)"
  and "test_describe_table B c sc tb s =
    (Inr (),
     s\<lparr>stdout_script := rest,
       sent := sent s @ [\<lparr>rid = request_id s, rmethod = ''tools/call'',
                rparams = tool_params ''describe_table''
                  [(''database'', JStr c), (''schema'', JStr sc), (''table'', JStr tb)]\<rparr>],
       request_id := request_id s + 1,
       out := out s @ Announce ''Describing table'' [c, sc, tb] # dict_report kvs\<rparr>)"
  and "test_run_sql B c q l s =
    (Inr (),
     s\<lparr>stdout_script := rest,
       sent := sent s @ [\<lparr>rid = request_id s, rmethod = ''tools/call'',
                rparams = tool_params ''run_sql''
                  [(''database'', JStr c), (''query'', JStr q), (''limit'', JInt l)]\<rparr>],
       request_id := request_id s + 1,
       out := out s @ Announce ''Running SQL'' [c, take 50 q] # dict_report kvs\<rparr>)"
  and "test_explain_sql B c q s =
    (Inr (),
     s\<lparr>stdout_script := rest,
       sent := sent s @ [\<lparr>rid = request_id s, rmethod = ''tools/call'',
                rparams = tool_params ''explain_sql''
                  [(''database'', JStr c), (''query'', JStr q)]\<rparr>],
       request_id := request_id s + 1,
       out := out s @ Announce ''Explaining SQL'' [c, take 50 q] # dict_report kvs\<rparr>)"
  using assms
  by (simp_all add: test_list_schemas_def test_list_tables_def test_describe_table_def
      test_run_sql_def test_explain_sql_def thn_def bnd_def print_def send_command_decoded
      when_response_def print_response_dict dict_report_def ret_def py_or_def tool_params_def)

lemma initialize_dict:
  assumes "process s \<noteq> None" "stdin_script s = []" "stdout_script s = Inr line # rest"
    "line \<noteq> []" "loads B (strip line) = Inr (JObj kvs)"
  shows "initialize B s =
    (Inr (kvs \<noteq> []),
     s\<lparr>stdout_script := rest,
       sent := sent s @ [\<lparr>rid = request_id s, rmethod = ''initialize'',
                rparams = initialize_params\<rparr>],
       request_id := request_id s + 1,
       out := out s @ Text ''Initializing MCP session...'' # dict_report kvs\<rparr>)"
  using assms
  by (simp add: initialize_def thn_def bnd_def print_def send_command_decoded
      print_response_dict dict_report_def ret_def py_or_def initialize_params_def)

lemma filter_dict_report:
  "length (filter is_error_report (dict_report kvs)) = (if has_error kvs then 1 else 0)"
  "length (filter is_success_hdr (dict_report kvs)) = (if has_result_only kvs then 1 else 0)"
  "filter is_announce (dict_report kvs) = []"
  by (auto simp: dict_report_def response_report_def has_error_def has_result_only_def
      split: option.splits)

lemma twelve:
  assumes "length (xs :: 'a list) = 12"
  obtains x0 x1 x2 x3 x4 x5 x6 x7 x8 x9 x10 x11
  where "xs = [x0, x1, x2, x3, x4, x5, x6, x7, x8, x9, x10, x11]"
  using assms by (auto simp: eval_nat_numeral length_Suc_conv)

lemma comprehensive_dicts:
  assumes "process s \<noteq> None" "stdin_script s = []" "stdout_script s = map Inr ls @ rest"
    "length ls = 12" "list_all2 (decodes_to B) ls ks" "hd ks \<noteq> []"
  shows "case run_comprehensive_test B s of
      (r, s') \<Rightarrow>
        r = Inr () \<and> stdout_script s' = rest \<and> request_id s' = request_id s + 12 \<and>
        (\<exists>reqs outp.
           sent s' = sent s @ reqs \<and> out s' = out s @ outp \<and>
           map rmethod reqs = ''initialize'' # replicate 11 ''tools/call'' \<and>
           map rid reqs = map (\<lambda>i. request_id s + i) [0..11] \<and>
           length (filter is_announce outp) = 11 \<and>
           length (filter is_error_report outp) = length (filter has_error ks) \<and>
           length (filter is_success_hdr outp) = length (filter has_result_only ks))"
proof -
  obtain l0 l1 l2 l3 l4 l5 l6 l7 l8 l9 l10 l11
    where ls: "ls = [l0, l1, l2, l3, l4, l5, l6, l7, l8, l9, l10, l11]"
    using assms(4) by (rule twelve)
  from assms(5) have "length ks = 12" using assms(4) by (simp add: list_all2_lengthD [symmetric])
  then obtain k0 k1 k2 k3 k4 k5 k6 k7 k8 k9 k10 k11
    where ks: "ks = [k0, k1, k2, k3, k4, k5, k6, k7, k8, k9, k10, k11]"
    by (rule twelve)
  have d: "l0 \<noteq> []" "loads B (strip l0) = Inr (JObj k0)"
    "l1 \<noteq> []" "loads B (strip l1) = Inr (JObj k1)"
    "l2 \<noteq> []" "loads B (strip l2) = Inr (JObj k2)"
    "l3 \<noteq> []" "loads B (strip l3) = Inr (JObj k3)"
    "l4 \<noteq> []" "loads B (strip l4) = Inr (JObj k4)"
    "l5 \<noteq> []" "loads B (strip l5) = Inr (JObj k5)"
    "l6 \<noteq> []" "loads B (strip l6) = Inr (JObj k6)"
    "l7 \<noteq> []" "loads B (strip l7) = Inr (JObj k7)"
    "l8 \<noteq> []" "loads B (strip l8) = Inr (JObj k8)"
    "l9 \<noteq> []" "loads B (strip l9) = Inr (JObj k9)"
    "l10 \<noteq> []" "loads B (strip l10) = Inr (JObj k10)"
    "l11 \<noteq> []" "loads B (strip l11) = Inr (JObj k11)"
    using assms(5) unfolding ls ks by (simp_all add: decodes_to_def)
  have k0: "k0 \<noteq> []" using assms(6) ks by simp
  have r11: "replicate 11 x = [x, x, x, x, x, x, x, x, x, x, x]" for x :: string
    by (simp add: numeral_eq_Suc)
  have u11: "[0..11] = [0, 1, 2, 3, 4, 5, 6, 7, 8, 9, 10, 11::int]"
    by (simp add: upto.simps)
  note steps = initialize_dict [OF _ _ _ d(1,2)]
      test_dict [OF _ _ _ d(3,4)] test_dict [OF _ _ _ d(5,6)] test_dict [OF _ _ _ d(7,8)]
      test_dict [OF _ _ _ d(9,10)] test_dict [OF _ _ _ d(11,12)] test_dict [OF _ _ _ d(13,14)]
      test_dict [OF _ _ _ d(15,16)] test_dict [OF _ _ _ d(17,18)] test_dict [OF _ _ _ d(19,20)]
      test_dict [OF _ _ _ d(21,22)] test_dict [OF _ _ _ d(23,24)]
  show ?thesis
    using assms(1,2,3) k0 unfolding ls ks r11 u11
    by (simp add: run_comprehensive_test_def postgres_tests_def clickhouse_tests_def
      thn_def bnd_def print_def steps filter_dict_report)
qed

lemmas prog_defs = ret_def raise_def bnd_def thn_def lift_def try_except_def try_finally_def
  print_def input_def stdin_write_def stdout_readline_def MCPTester_init_def
  bump_request_id_def send_command_def Let_def py_or_def print_response_def when_response_def
  initialize_def initialize_params_def tool_params_def test_list_schemas_def
  test_list_tables_def test_describe_table_def test_run_sql_def test_explain_sql_def
  postgres_tests_def clickhouse_tests_def run_comprehensive_test_def

lemmas fixture_defs = started_def world0_def B0_def reply_def ok_text_def err_text_def
  odd_text_def loads0_def loads_table_def ok_json_def err_json_def odd_json_def strip_def
  is_space_def int_of0_def digit_table_def

lemmas menu_defs = print_menu_def input_stripped_def menu_dispatch_def menu_body_def
  interactive_mode_def

section \<open>Request ids\<close>

text \<open>
  C1, as amended. A new tester starts with request id 1. A call made while the server
  runs hands exactly one request to the child's stdin, carrying the current request id; the
  id advances by one when the call returns a decoded response and stays as it is when the
  call fails (no response line, or an exception while sending or decoding), so that the
  next call carries the same id again.
\<close>

theorem request_id_advances_on_reply:
  assumes "process s \<noteq> None"
  shows "request_id (snd (MCPTester_init s0)) = 1
    \<and> sent (snd (send_command B m p s))
        = sent s @ [\<lparr>rid = request_id s, rmethod = m, rparams = py_or p (JObj [])\<rparr>]
    \<and> request_id (snd (send_command B m p s))
        = (if (\<exists>r. fst (send_command B m p s) = Inr (Some r))
           then request_id s + 1 else request_id s)"
  using assms
  by (auto simp: MCPTester_init_def send_command_def Let_def try_except_def thn_def bnd_def
      stdin_write_def stdout_readline_def lift_def bump_request_id_def ret_def print_def
      split: list.splits option.splits sum.splits)

theorem request_id_advances_on_reply_witness:
  "request_id (snd (MCPTester_init world0)) = 1
   \<and> sent (snd (send_command B0 ''initialize'' initialize_params
             (started\<lparr>stdout_script := [reply (ok_text ''1'')]\<rparr>)))
       = [\<lparr>rid = 1, rmethod = ''initialize'', rparams = initialize_params\<rparr>]
   \<and> request_id (snd (send_command B0 ''initialize'' initialize_params
             (started\<lparr>stdout_script := [reply (ok_text ''1'')]\<rparr>))) = 2"
  using request_id_advances_on_reply
    [of "started\<lparr>stdout_script := [reply (ok_text ''1'')]\<rparr>" world0 B0 "''initialize''"
      initialize_params]
  by (simp add: fixture_defs prog_defs)

text \<open>
  The claim as stated fails: after the handshake, a log line that is not JSON and then a
  closed stream leave the id where it was, and the script sends id 2 twice and id 3 nine
  times.
\<close>

theorem request_id_reused_after_failure:
  "map rid (sent (snd (run_comprehensive_test B0
      (started\<lparr>stdout_script :=
         [reply (ok_text ''1''), reply ''Server listening'', reply (ok_text ''2'')]\<rparr>))))
   = [1, 2, 2, 3, 3, 3, 3, 3, 3, 3, 3, 3]"
  by (simp add: prog_defs fixture_defs)

section \<open>The handshake\<close>

text \<open>
  C2, as amended. \<open>initialize\<close> reports success whenever the handshake response line
  decodes to a non-empty dict, whether the dict carries a result or an error, and it
  reports success only when a response line was decoded to a value that counts as true.
\<close>

theorem initialize_succeeds_on_any_reply:
  "(process s \<noteq> None \<and> stdin_script s = [] \<and> stdout_script s = Inr line # rest \<and> line \<noteq> []
      \<and> loads B (strip line) = Inr (JObj kvs)
     \<longrightarrow> fst (initialize B s) = Inr (kvs \<noteq> []))
   \<and> (fst (initialize B s) = Inr True
     \<longrightarrow> (\<exists>l ls r. stdout_script s = Inr l # ls \<and> l \<noteq> [] \<and> loads B (strip l) = Inr r
            \<and> truthy r))"
proof (intro conjI impI)
  assume "process s \<noteq> None \<and> stdin_script s = [] \<and> stdout_script s = Inr line # rest
    \<and> line \<noteq> [] \<and> loads B (strip line) = Inr (JObj kvs)"
  then show "fst (initialize B s) = Inr (kvs \<noteq> [])"
    by (simp add: initialize_dict)
next
  assume "fst (initialize B s) = Inr True"
  then show "\<exists>l ls r. stdout_script s = Inr l # ls \<and> l \<noteq> [] \<and> loads B (strip l) = Inr r
            \<and> truthy r"
    by (auto simp: initialize_def send_command_def Let_def try_except_def thn_def bnd_def
        stdin_write_def stdout_readline_def lift_def bump_request_id_def ret_def print_def
        split: list.splits option.splits sum.splits if_splits prod.splits)
qed

theorem initialize_succeeds_on_any_reply_witness:
  "stdout_script (started\<lparr>stdout_script := [reply (ok_text ''1'')]\<rparr>)
     = [Inr (ok_text ''1'' @ [CHR 0x0A])]
   \<and> loads B0 (strip (ok_text ''1'' @ [CHR 0x0A])) = Inr (ok_json 1)
   \<and> fst (initialize B0 (started\<lparr>stdout_script := [reply (ok_text ''1'')]\<rparr>)) = Inr True"
  using initialize_succeeds_on_any_reply
    [of "started\<lparr>stdout_script := [reply (ok_text ''1'')]\<rparr>" "ok_text ''1'' @ [CHR 0x0A]" "[]"
      B0 "[(''jsonrpc'', JStr ''2.0''), (''id'', JInt 1), (''result'', JObj [])]"]
  by (simp add: fixture_defs)

text \<open>
  The claim as stated fails: a response carrying a JSON-RPC error object makes
  \<open>initialize\<close> report success.
\<close>

theorem initialize_accepts_error_response:
  "loads B0 (strip (err_text ''1'' @ [CHR 0x0A])) = Inr (err_json 1)
   \<and> py_in ''error'' (err_json 1) = Inr True
   \<and> fst (initialize B0 (started\<lparr>stdout_script := [reply (err_text ''1'')]\<rparr>)) = Inr True"
  by (simp add: prog_defs fixture_defs)

section \<open>Response lines that are not what was asked for\<close>

text \<open>
  C3, as amended. A response line that cannot be decoded makes the call fail: it returns
  \<open>None\<close>, the exception is printed for the operator, the request is not sent again and
  the request id stays. A line that can be decoded is returned as the response of the
  call, whatever its id and whether or not it has a result or an error member.
\<close>

theorem undecodable_line_fails_call:
  assumes "process s \<noteq> None" "stdin_script s = []" "stdout_script s = Inr line # rest"
    "line \<noteq> []"
  shows "(loads B (strip line) = Inl e \<and> is_Exception e \<longrightarrow>
       send_command B m p s =
         (Inr None,
          s\<lparr>stdout_script := rest,
            sent := sent s @ [\<lparr>rid = request_id s, rmethod = m, rparams = py_or p (JObj [])\<rparr>],
            out := out s @ [SendError e]\<rparr>))
    \<and> (loads B (strip line) = Inr r \<longrightarrow>
       send_command B m p s =
         (Inr (Some r),
          s\<lparr>stdout_script := rest,
            sent := sent s @ [\<lparr>rid = request_id s, rmethod = m, rparams = py_or p (JObj [])\<rparr>],
            request_id := request_id s + 1\<rparr>))"
  using assms by (simp add: send_command_decoded send_command_undecodable)

theorem undecodable_line_fails_call_witness:
  "send_command B0 ''tools/call'' (tool_params ''list_schemas'' [(''database'', JStr ''primary'')])
     (started\<lparr>stdout_script := [reply ''Server listening'', reply (ok_text ''1'')]\<rparr>)
   = (Inr None,
      started\<lparr>stdout_script := [reply (ok_text ''1'')],
        sent := [\<lparr>rid = 1, rmethod = ''tools/call'',
                  rparams = tool_params ''list_schemas'' [(''database'', JStr ''primary'')]\<rparr>],
        out := [SendError (Error ''JSONDecodeError'')]\<rparr>)
   \<and> send_command B0 ''tools/call'' (tool_params ''list_schemas'' [(''database'', JStr ''primary'')])
     (started\<lparr>stdout_script := [reply (ok_text ''1'')]\<rparr>)
   = (Inr (Some (ok_json 1)),
      started\<lparr>stdout_script := [],
        sent := [\<lparr>rid = 1, rmethod = ''tools/call'',
                  rparams = tool_params ''list_schemas'' [(''database'', JStr ''primary'')]\<rparr>],
        request_id := 2\<rparr>)"
  using undecodable_line_fails_call
    [where s = "started\<lparr>stdout_script := [reply ''Server listening'', reply (ok_text ''1'')]\<rparr>"
      and line = "''Server listening'' @ [CHR 0x0A]" and rest = "[reply (ok_text ''1'')]"
      and B = B0 and e = "Error ''JSONDecodeError''" and m = "''tools/call''"
      and p = "tool_params ''list_schemas'' [(''database'', JStr ''primary'')]"]
    undecodable_line_fails_call
    [where s = "started\<lparr>stdout_script := [reply (ok_text ''1'')]\<rparr>"
      and line = "ok_text ''1'' @ [CHR 0x0A]" and rest = "[]" and B = B0
      and r = "ok_json 1" and m = "''tools/call''"
      and p = "tool_params ''list_schemas'' [(''database'', JStr ''primary'')]"]
  by (simp add: fixture_defs tool_params_def py_or_def)

text \<open>
  The claim as stated fails: a response with id 99 to the request with id 1, with neither
  result nor error, is returned as the response of the call and nothing is printed.
\<close>

theorem mismatched_reply_is_accepted:
  "loads B0 (strip (odd_text @ [CHR 0x0A])) = Inr odd_json
   \<and> py_in ''result'' odd_json = Inr False \<and> py_in ''error'' odd_json = Inr False
   \<and> py_getitem odd_json ''id'' = Inr (JInt 99)
   \<and> send_command B0 ''tools/call''
       (tool_params ''list_schemas'' [(''database'', JStr ''primary'')])
       (started\<lparr>stdout_script := [reply odd_text]\<rparr>)
     = (Inr (Some odd_json),
        started\<lparr>stdout_script := [],
          sent := [\<lparr>rid = 1, rmethod = ''tools/call'',
                    rparams = tool_params ''list_schemas'' [(''database'', JStr ''primary'')]\<rparr>],
          request_id := 2\<rparr>)"
  by (simp add: prog_defs fixture_defs)

section \<open>A closed output stream\<close>




section \<open>The order of the requests\<close>













lemma initialize_sent:
  assumes "process s \<noteq> None"
  shows "sent (snd (initialize B s))
          = sent s @ [\<lparr>rid = request_id s, rmethod = ''initialize'', rparams = initialize_params\<rparr>]"
    and "keyboard (snd (initialize B s)) = keyboard s"
proof -
  have pr: "sent (snd (print_response r s)) = sent s \<and> keyboard (snd (print_response r s)) = keyboard s" for r s
  proof -
    have "stays (same (\<lambda>s. (sent s, keyboard s))) (print_response r)"
      by (intro stays_print_response reflp_same transp_same stays_print_same) simp
    then show ?thesis by (simp add: stays_def same_def)
  qed
  have sc: "sent (snd (send_command B m p s))
        = sent s @ [\<lparr>rid = request_id s, rmethod = m, rparams = py_or p (JObj [])\<rparr>]
       \<and> keyboard (snd (send_command B m p s)) = keyboard s \<and> out (snd (send_command B m p s)) = out (snd (send_command B m p s))"
    if "process s \<noteq> None" for m p s
    using that
    by (auto simp: send_command_def Let_def try_except_def thn_def bnd_def
      stdin_write_def stdout_readline_def lift_def bump_request_id_def ret_def print_def
      split: list.splits option.splits sum.splits)
  obtain r s1 where c: "send_command B ''initialize'' initialize_params
      (s\<lparr>out := out s @ [Text ''Initializing MCP session...'']\<rparr>) = (r, s1)"
    by (cases "send_command B ''initialize'' initialize_params
      (s\<lparr>out := out s @ [Text ''Initializing MCP session...'']\<rparr>)")
  from sc [of "s\<lparr>out := out s @ [Text ''Initializing MCP session...'']\<rparr>" "''initialize''" initialize_params] c assms
  have s1: "sent s1 = sent s @ [\<lparr>rid = request_id s, rmethod = ''initialize'', rparams = initialize_params\<rparr>]"
    "keyboard s1 = keyboard s"
    by (simp_all add: py_or_def initialize_params_def)
  have "sent (snd (initialize B s)) = sent s1 \<and> keyboard (snd (initialize B s)) = keyboard s1"
    using c pr [of _ s1]
    by (auto simp: initialize_def thn_def bnd_def print_def ret_def
        split: sum.splits option.splits prod.splits) (metis snd_conv)+
  with s1 show "sent (snd (initialize B s))
          = sent s @ [\<lparr>rid = request_id s, rmethod = ''initialize'', rparams = initialize_params\<rparr>]"
    and "keyboard (snd (initialize B s)) = keyboard s" by simp_all
qed





section \<open>The comprehensive script\<close>

lemma one_error_facts:
  "process one_error_world \<noteq> None" "stdin_script one_error_world = []"
  "stdout_script one_error_world = map Inr one_error_lines @ []"
  "length one_error_lines = 12"
  "list_all2 (decodes_to B0) one_error_lines one_error_dicts"
  "hd one_error_dicts \<noteq> []"
  "length (filter has_error one_error_dicts) = 1"
  "sent one_error_world = []" "out one_error_world = []"
  by (simp_all add: one_error_world_def one_error_lines_def one_error_dicts_def fixture_defs
      decodes_to_def dict_of_def has_error_def)

lemma started_facts:
  "process started \<noteq> None" "stdin_script started = []" "sent started = []"
  "request_id started = 1" "out started = []"
  "fst (initialize B0
          (started\<lparr>out := out started
             @ [Text ''Running Comprehensive MCP Database Server Test'', Rule 60]\<rparr>))
     = Inr False"
  by (simp_all add: prog_defs fixture_defs)

text \<open>
  C6. In comprehensive mode, when the handshake response and the responses to the tool
  calls are JSON objects, any number of them carrying an error, the script returns
  normally, all eleven tool calls are sent, and one error report is printed for each
  response carrying an error. When \<open>initialize\<close> reports failure, the script stops at
  once: the only request sent is \<open>initialize\<close>.
\<close>

theorem tool_errors_do_not_stop_script:
  assumes "process s \<noteq> None" "stdin_script s = []"
  shows "(stdout_script s = map Inr ls @ rest \<and> length ls = 12 \<and> list_all2 (decodes_to B) ls ks
        \<and> hd ks \<noteq> []
      \<longrightarrow> (case run_comprehensive_test B s of
            (r, s') \<Rightarrow>
              r = Inr () \<and>
              (\<exists>reqs outp.
                 sent s' = sent s @ reqs \<and> out s' = out s @ outp \<and>
                 map rmethod reqs = ''initialize'' # replicate 11 ''tools/call'' \<and>
                 length (filter is_error_report outp) = length (filter has_error ks))))
    \<and> (fst (initialize B
             (s\<lparr>out := out s @ [Text ''Running Comprehensive MCP Database Server Test'',
                                 Rule 60]\<rparr>)) = Inr False
      \<longrightarrow> fst (run_comprehensive_test B s) = Inr ()
          \<and> sent (snd (run_comprehensive_test B s))
              = sent s @ [\<lparr>rid = request_id s, rmethod = ''initialize'',
                            rparams = initialize_params\<rparr>]
          \<and> last (out (snd (run_comprehensive_test B s)))
              = Text ''Failed to initialize. Stopping tests.'')"
proof (intro conjI impI)
  assume a: "stdout_script s = map Inr ls @ rest \<and> length ls = 12
    \<and> list_all2 (decodes_to B) ls ks \<and> hd ks \<noteq> []"
  then have a': "stdout_script s = map Inr ls @ rest" "length ls = 12"
    "list_all2 (decodes_to B) ls ks" "hd ks \<noteq> []" by blast+
  have "case run_comprehensive_test B s of
      (r, s') \<Rightarrow>
        r = Inr () \<and> stdout_script s' = rest \<and> request_id s' = request_id s + 12 \<and>
        (\<exists>reqs outp.
           sent s' = sent s @ reqs \<and> out s' = out s @ outp \<and>
           map rmethod reqs = ''initialize'' # replicate 11 ''tools/call'' \<and>
           map rid reqs = map (\<lambda>i. request_id s + i) [0..11] \<and>
           length (filter is_announce outp) = 11 \<and>
           length (filter is_error_report outp) = length (filter has_error ks) \<and>
           length (filter is_success_hdr outp) = length (filter has_result_only ks))"
    by (rule comprehensive_dicts [OF assms a'])
  then show "case run_comprehensive_test B s of
            (r, s') \<Rightarrow>
              r = Inr () \<and>
              (\<exists>reqs outp.
                 sent s' = sent s @ reqs \<and> out s' = out s @ outp \<and>
                 map rmethod reqs = ''initialize'' # replicate 11 ''tools/call'' \<and>
                 length (filter is_error_report outp) = length (filter has_error ks))"
    by (auto split: prod.splits)
next
  let ?s0 = "s\<lparr>out := out s @ [Text ''Running Comprehensive MCP Database Server Test'',
                                 Rule 60]\<rparr>"
  assume f: "fst (initialize B ?s0) = Inr False"
  obtain s1 where i: "initialize B ?s0 = (Inr False, s1)"
    using f by (cases "initialize B ?s0") simp
  have run: "run_comprehensive_test B s
      = (Inr (), s1\<lparr>out := out s1 @ [Text ''Failed to initialize. Stopping tests.'']\<rparr>)"
    using i by (simp add: run_comprehensive_test_def thn_def bnd_def print_def)
  from initialize_sent(1) [of ?s0 B] assms i
  have "sent s1 = sent s @ [\<lparr>rid = request_id s, rmethod = ''initialize'',
                            rparams = initialize_params\<rparr>]" by simp
  with run show "fst (run_comprehensive_test B s) = Inr ()"
    and "sent (snd (run_comprehensive_test B s))
              = sent s @ [\<lparr>rid = request_id s, rmethod = ''initialize'',
                            rparams = initialize_params\<rparr>]"
    and "last (out (snd (run_comprehensive_test B s)))
              = Text ''Failed to initialize. Stopping tests.''"
    by simp_all
qed

theorem tool_errors_do_not_stop_script_witness:
  "list_all2 (decodes_to B0) one_error_lines one_error_dicts
   \<and> (case run_comprehensive_test B0 one_error_world of
        (r, s') \<Rightarrow>
          r = Inr () \<and>
          (\<exists>reqs outp.
             sent s' = reqs \<and> out s' = outp \<and>
             map rmethod reqs = ''initialize'' # replicate 11 ''tools/call'' \<and>
             length (filter is_error_report outp) = 1))
   \<and> fst (initialize B0
          (started\<lparr>out := out started
             @ [Text ''Running Comprehensive MCP Database Server Test'', Rule 60]\<rparr>))
       = Inr False
   \<and> fst (run_comprehensive_test B0 started) = Inr ()
   \<and> sent (snd (run_comprehensive_test B0 started))
       = [\<lparr>rid = 1, rmethod = ''initialize'', rparams = initialize_params\<rparr>]"
proof -
  note t1 = tool_errors_do_not_stop_script
    [where s = one_error_world and B = B0 and rest = "[]" and ls = one_error_lines
      and ks = one_error_dicts, OF one_error_facts(1,2), THEN conjunct1, THEN mp]
  have "case run_comprehensive_test B0 one_error_world of
        (r, s') \<Rightarrow>
          r = Inr () \<and>
          (\<exists>reqs outp.
             sent s' = sent one_error_world @ reqs \<and> out s' = out one_error_world @ outp \<and>
             map rmethod reqs = ''initialize'' # replicate 11 ''tools/call'' \<and>
             length (filter is_error_report outp) = length (filter has_error one_error_dicts))"
    by (rule t1) (intro conjI one_error_facts)
  then have a: "case run_comprehensive_test B0 one_error_world of
        (r, s') \<Rightarrow>
          r = Inr () \<and>
          (\<exists>reqs outp.
             sent s' = reqs \<and> out s' = outp \<and>
             map rmethod reqs = ''initialize'' # replicate 11 ''tools/call'' \<and>
             length (filter is_error_report outp) = 1)"
    by (simp only: one_error_facts append_Nil)
  note t2 = tool_errors_do_not_stop_script
    [where s = started and B = B0, OF started_facts(1,2), THEN conjunct2, THEN mp,
      OF started_facts(6)]
  from t2 have b: "fst (run_comprehensive_test B0 started) = Inr ()"
    "sent (snd (run_comprehensive_test B0 started))
       = [\<lparr>rid = 1, rmethod = ''initialize'', rparams = initialize_params\<rparr>]"
    by (simp_all only: started_facts append_Nil)
  from one_error_facts(5) a started_facts(6) b show ?thesis by (intro conjI)
qed








section \<open>Shutdown on every exit path\<close>

lemma cleanup_result:
  "fst (cleanup s) = Inr ()"
  "process (snd (cleanup s)) = process s"
  "process s \<noteq> None \<Longrightarrow> pcalls (snd (cleanup s)) = pcalls s @ shutdown_calls s"
  "process s \<noteq> None \<Longrightarrow> reaped (snd (cleanup s))"
  by (simp_all add: cleanup_def shutdown_calls_def thn_def bnd_def print_def pcall_def
      try_except_def wait_timeout_def wait_def)



lemma stays_input_same:
  assumes "\<And>s x. f (s\<lparr>out := x\<rparr>) = f s" "\<And>s x. f (s\<lparr>keyboard := x\<rparr>) = f s"
  shows "stays (same f) (input p)"
  using assms
  by (auto simp: stays_def same_def input_def split: list.splits key_event.splits)






lemma main_unfold:
  "binary_exists s \<Longrightarrow>
   main B s = thn check_databases (thn MCPTester_init
      (session B (if length (argv s) > 1 \<and> argv s ! 1 = ''--comprehensive''
                     then Comprehensive else Interactive))) s"
  by (simp add: main_def Let_def)

lemma thn_cases:
  "m s = (Inl e, s1) \<Longrightarrow> thn m n s = (Inl e, s1)"
  "m s = (Inr x, s1) \<Longrightarrow> thn m n s = n s1"
  by (simp_all add: thn_def bnd_def)









section \<open>A limit that is not a number\<close>

lemma menu_loop_after_passes:
  "after_passes B n s = Some s' \<Longrightarrow> menu_loop B s = menu_loop B s'"
proof (induction n arbitrary: s)
  case 0
  then show ?case by simp
next
  case (Suc n)
  then obtain s1 where b: "menu_body B s = (Inr True, s1)" and a: "after_passes B n s1 = Some s'"
    by (auto split: prod.splits sum.splits bool.splits if_splits)
  from b have "menu_loop B s = menu_loop B s1" by simp
  with Suc.IH [OF a] show ?case by simp
qed

lemma after_passes_keeps:
  assumes "after_passes B n s = Some s'"
    and "\<And>s. f (snd (menu_body B s)) = f s"
  shows "f s' = f s"
  using assms(1)
proof (induction n arbitrary: s)
  case 0
  then show ?case by simp
next
  case (Suc n)
  then obtain s1 where b: "menu_body B s = (Inr True, s1)" and a: "after_passes B n s1 = Some s'"
    by (auto split: prod.splits sum.splits bool.splits if_splits)
  from assms(2) [of s] b have "f s1 = f s" by simp
  with Suc.IH [OF a] show ?case by simp
qed

lemma menu_body_keeps_shutdown:
  "(\<lambda>s. (process s, pcalls s, exits_in_grace s)) (snd (menu_body B s))
    = (\<lambda>s. (process s, pcalls s, exits_in_grace s)) s"
proof -
  have "stays (same (\<lambda>s. (process s, pcalls s, exits_in_grace s))) (menu_body B)"
    by (intro stays_menu_body reflp_same transp_same stays_print_same stays_send_command_same
        stays_input_same) simp_all
  then show ?thesis by (simp add: stays_def same_def)
qed

lemma bad_limit_pass:
  assumes "keyboard s = Line c # Line conn # Line q # Line l # rest"
    and "strip c = ''5''" and "strip l \<noteq> []" and "int_of B (strip l) = None"
  shows "menu_body B s
      = (Inl (Error ''ValueError''),
         s\<lparr>keyboard := rest,
           out := out s @
             [Text ''Available commands:'', Text ''1. List schemas (PostgreSQL)'',
              Text ''2. List schemas (ClickHouse)'', Text ''3. List tables'',
              Text ''4. Describe table'', Text ''5. Run SQL query'',
              Text ''6. Explain SQL query'', Text ''7. Run comprehensive test'',
              Text ''8. Exit'', Prompt ''Enter your choice (1-8): '',
              Prompt ''Enter connection (primary/analytics): '',
              Prompt ''Enter SQL query: '', Prompt ''Enter limit (default 10): '']\<rparr>)"
  using assms
  by (simp add: menu_body_def print_menu_def input_stripped_def menu_dispatch_def input_def
      thn_def bnd_def print_def ret_def raise_def)

lemma bad_limit_loop:
  assumes "after_passes B n s2 = Some s3"
    and "keyboard s3 = Line c # Line conn # Line q # Line l # rest"
    and "strip c = ''5''" and "strip l \<noteq> []" and "int_of B (strip l) = None"
  shows "fst (menu_loop B s2) = Inl (Error ''ValueError'')"
    and "keyboard (snd (menu_loop B s2)) = rest"
    and "sent (snd (menu_loop B s2)) = sent s3"
    and "process (snd (menu_loop B s2)) = process s2"
    and "pcalls (snd (menu_loop B s2)) = pcalls s2"
    and "exits_in_grace (snd (menu_loop B s2)) = exits_in_grace s2"
proof -
  have k: "(\<lambda>s. (process s, pcalls s, exits_in_grace s)) s3
      = (\<lambda>s. (process s, pcalls s, exits_in_grace s)) s2"
    using assms(1) by (rule after_passes_keeps) (rule menu_body_keeps_shutdown)
  have "menu_loop B s2 = menu_loop B s3"
    using assms(1) by (rule menu_loop_after_passes)
  also have "\<dots> = (case menu_body B s3 of
        (Inl e, s') \<Rightarrow> (Inl e, s')
      | (Inr again, s') \<Rightarrow> if again then menu_loop B s' else (Inr (), s'))"
    by (rule menu_loop.simps)
  finally have e: "menu_loop B s2 = (case menu_body B s3 of
        (Inl e, s') \<Rightarrow> (Inl e, s')
      | (Inr again, s') \<Rightarrow> if again then menu_loop B s' else (Inr (), s'))" .
  show "fst (menu_loop B s2) = Inl (Error ''ValueError'')"
    and "keyboard (snd (menu_loop B s2)) = rest"
    and "sent (snd (menu_loop B s2)) = sent s3"
    and "process (snd (menu_loop B s2)) = process s2"
    and "pcalls (snd (menu_loop B s2)) = pcalls s2"
    and "exits_in_grace (snd (menu_loop B s2)) = exits_in_grace s2"
    using k unfolding e bad_limit_pass [OF assms(2-5)] by simp_all
qed

lemma main_interactive:
  assumes "binary_exists s" "check_databases s = (Inr (), s0)"
    "\<not> (length (argv s) > 1 \<and> argv s ! 1 = ''--comprehensive'')"
  shows "main B s = session B Interactive (s0\<lparr>process := None, request_id := 1\<rparr>)"
proof -
  have i: "MCPTester_init s0 = (Inr (), s0\<lparr>process := None, request_id := 1\<rparr>)"
    by (simp add: MCPTester_init_def)
  have "main B s
        = session B (if length (argv s) > 1 \<and> argv s ! 1 = ''--comprehensive''
                     then Comprehensive else Interactive)
            (s0\<lparr>process := None, request_id := 1\<rparr>)"
    unfolding main_unfold [OF assms(1)]
      thn_cases(2) [where m = check_databases and s = s, OF assms(2)]
      thn_cases(2) [where m = MCPTester_init and s = s0, OF i] ..
  with assms(3) show ?thesis by (simp only: if_False)
qed

lemma try_finally_cleanup:
  "try_finally m cleanup s = (fst (m s), snd (cleanup (snd (m s))))"
proof -
  obtain r s1 where m: "m s = (r, s1)" by (cases "m s")
  obtain s2 where c: "cleanup s1 = (Inr (), s2)"
    using cleanup_result(1) [of s1] by (cases "cleanup s1") simp
  from m c show ?thesis by (simp add: try_finally_def)
qed

lemma cleanup_keeps_keyboard: "keyboard (snd (cleanup s)) = keyboard s"
  by (simp add: cleanup_def thn_def bnd_def print_def pcall_def try_except_def
      wait_timeout_def wait_def)

lemma start_server_True: "start_server s = (Inr True, s1) \<Longrightarrow> process s1 = Some ()"
  by (auto simp: start_server_def try_except_def thn_def bnd_def popen_def print_def ret_def
      split: option.splits if_splits)

lemma initialize_keeps_shutdown:
  "process (snd (initialize B s)) = process s"
  "pcalls (snd (initialize B s)) = pcalls s"
  "exits_in_grace (snd (initialize B s)) = exits_in_grace s"
proof -
  have "stays (same (\<lambda>s. (process s, pcalls s, exits_in_grace s))) (initialize B)"
    by (intro stays_initialize reflp_same transp_same stays_print_same
        stays_send_command_same) simp_all
  then show "process (snd (initialize B s)) = process s"
    "pcalls (snd (initialize B s)) = pcalls s"
    "exits_in_grace (snd (initialize B s)) = exits_in_grace s"
    by (simp_all add: stays_def same_def)
qed

lemma bad_limit_facts:
  "binary_exists bad_limit_world"
  "\<not> (length (argv bad_limit_world) > 1 \<and> argv bad_limit_world ! 1 = ''--comprehensive'')"
  "check_databases bad_limit_world = (Inr (), bad_limit_world)"
  "start_server (bad_limit_world\<lparr>process := None, request_id := 1\<rparr>)
     = (Inr True, bad_limit_started)"
  "initialize B0
     (bad_limit_started\<lparr>out := out bad_limit_started
        @ [Text ''Interactive MCP Database Server Tester'', Rule 50]\<rparr>)
     = (Inr True, bad_limit_ready)"
  "strip ''5'' = ''5''" "strip ''ten'' \<noteq> []" "int_of B0 (strip ''ten'') = None"
  "pcalls bad_limit_ready = []" "shutdown_calls bad_limit_ready = [Terminate, WaitTimeout 3]"
  by (simp_all add: bad_limit_world_def bad_limit_started_def bad_limit_ready_def
      check_databases_def start_server_def popen_def docker_up_def shutdown_calls_def
      prog_defs fixture_defs)

lemma bad_limit_second_pass:
  "\<exists>s3. after_passes B0 1 bad_limit_ready = Some s3
     \<and> keyboard s3 = [Line ''5'', Line ''primary'', Line ''SELECT 1'', Line ''ten'', Line ''8'']"
  by (simp add: bad_limit_world_def bad_limit_started_def bad_limit_ready_def
      prog_defs menu_defs fixture_defs)

text \<open>
  C9. In interactive mode, after any number of earlier passes through the menu, a pass
  with choice 5 in which the operator enters a non-empty limit that \<open>int\<close> rejects makes
  the menu loop raise \<open>ValueError\<close>: nothing more is read from the keyboard, no request is
  sent, there is no second prompt and no default limit. In a session started by \<open>main\<close>
  the exception is not caught: \<open>main\<close> ends with \<open>ValueError\<close>, after \<open>cleanup\<close> has
  terminated the child.
\<close>

theorem bad_limit_ends_session:
  assumes "after_passes B n s2 = Some s3"
    and "keyboard s3 = Line c # Line conn # Line q # Line l # rest"
    and "strip c = ''5''" and "strip l \<noteq> []" and "int_of B (strip l) = None"
  shows "fst (menu_loop B s2) = Inl (Error ''ValueError'')
    \<and> keyboard (snd (menu_loop B s2)) = rest
    \<and> sent (snd (menu_loop B s2)) = sent s3
    \<and> (binary_exists s \<and> \<not> (length (argv s) > 1 \<and> argv s ! 1 = ''--comprehensive'')
         \<and> check_databases s = (Inr (), s0)
         \<and> start_server (s0\<lparr>process := None, request_id := 1\<rparr>) = (Inr True, s1)
         \<and> initialize B (s1\<lparr>out := out s1 @ [Text ''Interactive MCP Database Server Tester'',
                                               Rule 50]\<rparr>) = (Inr True, s2)
       \<longrightarrow> fst (main B s) = Inl (Error ''ValueError'')
           \<and> keyboard (snd (main B s)) = rest
           \<and> pcalls (snd (main B s)) = pcalls s2 @ shutdown_calls s2
           \<and> reaped (snd (main B s)))"
proof (intro conjI impI)
  note loop = bad_limit_loop [OF assms]
  show "fst (menu_loop B s2) = Inl (Error ''ValueError'')"
    and "keyboard (snd (menu_loop B s2)) = rest"
    and "sent (snd (menu_loop B s2)) = sent s3"
    by (rule loop)+
  let ?s0 = "s0\<lparr>process := None, request_id := 1\<rparr>"
  let ?s1 = "s1\<lparr>out := out s1 @ [Text ''Interactive MCP Database Server Tester'', Rule 50]\<rparr>"
  assume a: "binary_exists s \<and> \<not> (length (argv s) > 1 \<and> argv s ! 1 = ''--comprehensive'')
         \<and> check_databases s = (Inr (), s0)
         \<and> start_server ?s0 = (Inr True, s1)
         \<and> initialize B ?s1 = (Inr True, s2)"
  then have m: "main B s = session B Interactive ?s0"
    by (intro main_interactive) simp_all
  from a have st: "start_server ?s0 = (Inr True, s1)" and ini: "initialize B ?s1 = (Inr True, s2)"
    by simp_all
  obtain s4 where l4: "menu_loop B s2 = (Inl (Error ''ValueError''), s4)"
    using loop(1) by (cases "menu_loop B s2") simp
  with loop have s4: "keyboard s4 = rest" "process s4 = process s2" "pcalls s4 = pcalls s2"
    "exits_in_grace s4 = exits_in_grace s2" by simp_all
  from ini have "interactive_mode B s1 = menu_loop B s2"
    by (simp add: interactive_mode_def thn_def bnd_def print_def)
  with st l4 have "session_body B Interactive ?s0 = (Inl (Error ''ValueError''), s4)"
    by (simp add: session_body_def try_except_def bnd_def)
  then have r: "session B Interactive ?s0 = (Inl (Error ''ValueError''), snd (cleanup s4))"
    by (simp add: session_def try_finally_cleanup)
  from start_server_True [OF st] have "process s1 = Some ()" .
  with initialize_keeps_shutdown(1) [of B ?s1] ini have "process s2 \<noteq> None" by simp
  with s4 have p4: "process s4 \<noteq> None" by simp
  from m r show "fst (main B s) = Inl (Error ''ValueError'')" by simp
  from m r s4 show "keyboard (snd (main B s)) = rest" by (simp add: cleanup_keeps_keyboard)
  from m r s4 cleanup_result(3) [OF p4]
  show "pcalls (snd (main B s)) = pcalls s2 @ shutdown_calls s2"
    by (simp add: shutdown_calls_def)
  from m r cleanup_result(4) [OF p4] show "reaped (snd (main B s))" by simp
qed

theorem bad_limit_ends_session_witness:
  "int_of B0 (strip ''ten'') = None
   \<and> fst (menu_loop B0 bad_limit_ready) = Inl (Error ''ValueError'')
   \<and> keyboard (snd (menu_loop B0 bad_limit_ready)) = [Line ''8'']
   \<and> fst (main B0 bad_limit_world) = Inl (Error ''ValueError'')
   \<and> keyboard (snd (main B0 bad_limit_world)) = [Line ''8'']
   \<and> pcalls (snd (main B0 bad_limit_world)) = [Terminate, WaitTimeout 3]
   \<and> reaped (snd (main B0 bad_limit_world))"
proof -
  from bad_limit_second_pass obtain s3
    where p: "after_passes B0 1 bad_limit_ready = Some s3"
      and k: "keyboard s3
        = Line ''5'' # Line ''primary'' # Line ''SELECT 1'' # Line ''ten'' # [Line ''8'']"
    by auto
  note t = bad_limit_ends_session
    [where s = bad_limit_world and ?s0.0 = bad_limit_world and ?s1.0 = bad_limit_started,
      OF p k bad_limit_facts(6,7,8)]
  from t have a: "fst (menu_loop B0 bad_limit_ready) = Inl (Error ''ValueError'')"
    "keyboard (snd (menu_loop B0 bad_limit_ready)) = [Line ''8'']" by blast+
  from t bad_limit_facts(1-5)
  have b: "fst (main B0 bad_limit_world) = Inl (Error ''ValueError'')
    \<and> keyboard (snd (main B0 bad_limit_world)) = [Line ''8'']
    \<and> pcalls (snd (main B0 bad_limit_world))
        = pcalls bad_limit_ready @ shutdown_calls bad_limit_ready
    \<and> reaped (snd (main B0 bad_limit_world))" by blast
  then have "pcalls (snd (main B0 bad_limit_world)) = [Terminate, WaitTimeout 3]"
    by (simp only: bad_limit_facts append_Nil)
  with bad_limit_facts(8) a b show ?thesis by (intro conjI) blast+
qed

section \<open>The result reporter\<close>




end
